theory Spec2Isabelle
  imports Complex_Main "HOL-Library.Word" "HOL-Library.Signed_Division"
begin

section \<open>The CloudWatch alarm notifier: data model\<close>

text \<open>
  The program is one request handler, \<open>HandleRequest\<close> of \<open>main.go\<close>, together with the
  package variables that \<open>init\<close> sets. The embedding follows the source statement by
  statement. What the handler gets from outside the repository (the JSON decoder, the
  process environment, the wall clock, the formatting of a \<open>float32\<close> and the Slack
  client) is a field of the record \<open>env\<close>, so every theorem holds for every behaviour
  of these collaborators. What the handler does to the outside (reading the clock,
  calling the Slack client, writing to the three loggers) is recorded in the record
  \<open>world\<close>, which is passed through the handler.
\<close>

subsection \<open>Go values\<close>

text \<open>
  A Go \<open>int\<close> is modelled as \<open>int\<close>. The only arithmetic the handler does on an
  \<open>int\<close> is \<open>i + slackAttachmentsChunkSize\<close> in the chunking loop, where
  \<open>i\<close> stays below \<open>len(slackAttachments) + 100\<close> (lemma \<open>loop_index_bounds\<close> below);
  a slice of attachments is far shorter than \<open>2^63 - 100\<close> elements, so the 64-bit
  addition never wraps. An \<open>int64\<close> is a \<open>64 word\<close>. A \<open>float32\<close> is kept as its
  32 bits: the handler only stores and prints it, and the zero value is the word 0.
\<close>

type_synonym int64 = "64 word"
type_synonym float32 = "32 word"

text \<open>A run-time panic, a Go \<open>error\<close> value (\<open>nil\<close> is \<open>None\<close>) and the Slack client's answers.\<close>

datatype panic = SliceBoundsOutOfRange

datatype go_error = GoError string

datatype slack_error = SlackError string

datatype slack_response = SlackResponse string

subsection \<open>The structs of \<open>main.go\<close>\<close>

record CloudWatchAlarmEventTrigger =
  Period :: int
  EvaluationPeriods :: int
  ComparisonOperator :: string
  Threshold :: float32

record CloudWatchAlarmEvent =
  AlarmName :: string
  AlarmDescription :: string
  AWSAccountID :: string
  NewStateValue :: string
  NewStateReason :: string
  StateChangeTime :: string
  Region :: string
  OldStateValue :: string
  Trigger :: CloudWatchAlarmEventTrigger

text \<open>The value of \<open>CloudWatchAlarmEvent{}\<close>: every field has the zero value of its type.\<close>

definition zeroTrigger :: CloudWatchAlarmEventTrigger where
  "zeroTrigger = \<lparr>Period = 0, EvaluationPeriods = 0, ComparisonOperator = [], Threshold = 0\<rparr>"

definition zeroCloudWatchAlarmEvent :: CloudWatchAlarmEvent where
  "zeroCloudWatchAlarmEvent =
     \<lparr>AlarmName = [], AlarmDescription = [], AWSAccountID = [], NewStateValue = [],
      NewStateReason = [], StateChangeTime = [], Region = [], OldStateValue = [],
      Trigger = zeroTrigger\<rparr>"

subsection \<open>The structs of the libraries, as far as the handler uses them\<close>

text \<open>
  Of \<open>events.SNSEvent\<close> the handler reads \<open>Records\<close>, and of each record
  \<open>SNS.Message\<close> and \<open>SNS.Subject\<close>. Of \<open>slack.Attachment\<close>,
  \<open>slack.AttachmentField\<close> and \<open>slack.Payload\<close> it sets the fields below.
\<close>

record SNSEntity =
  Message :: string
  Subject :: string

record SNSEventRecord =
  SNS :: SNSEntity

record SNSEvent =
  Records :: "SNSEventRecord list"

record AttachmentField =
  Title :: string
  Value :: string
  Short :: bool

record Attachment =
  Color :: string
  Title :: string
  Text :: string
  Footer :: string
  FooterIcon :: string
  Ts :: int64
  AttachmentField :: "AttachmentField list"

record Payload =
  Channel :: string
  Attachments :: "Attachment list"

subsection \<open>Collaborators, package variables and the observable world\<close>

text \<open>
  \<open>jsonDecode body v\<close> stands for \<open>json.NewDecoder(strings.NewReader(body)).Decode(&v)\<close>:
  it returns the error and the struct as the decoder leaves it. \<open>timeNow k\<close> is what
  \<open>time.Now().UnixNano()\<close> returns at its \<open>k\<close>-th call. \<open>slackSend h p\<close> is the answer of
  \<open>(*slackClient).Send(p)\<close> after the earlier calls \<open>h\<close>: the answer may depend on the
  whole history, so every pattern of successes and failures is some \<open>slackSend\<close>.
\<close>

record env =
  jsonDecode :: "string \<Rightarrow> CloudWatchAlarmEvent \<Rightarrow> go_error option \<times> CloudWatchAlarmEvent"
  getenv :: "string \<Rightarrow> string"
  timeNow :: "nat \<Rightarrow> int64"
  sprintFloat32 :: "float32 \<Rightarrow> string"
  slackSend :: "Payload list \<Rightarrow> Payload \<Rightarrow> slack_error + slack_response"

record globals =
  slackAttachmentsChunkSize :: int
  slackMonitorChannel :: string

datatype log_line =
  InfoLine slack_response
  | WarningLine string
  | ErrorLine slack_error

record world =
  clockReads :: nat
  sendCalls :: "Payload list"
  logOut :: "log_line list"

text \<open>\<open>init\<close>: the chunk size is the constant 100, the channel comes from the environment.\<close>

definition init :: "env \<Rightarrow> globals" where
  "init e = \<lparr>slackAttachmentsChunkSize = 100,
             slackMonitorChannel = getenv e ''SLACK_MONITOR_CHANNEL''\<rparr>"

section \<open>The handler\<close>

subsection \<open>Formatting\<close>

text \<open>\<open>fmt.Sprintf("%v", n)\<close> for an \<open>int\<close>: the decimal digits, with a sign when negative.\<close>

fun sprintNat :: "nat \<Rightarrow> string" where
  "sprintNat n =
     (if n < 10 then [''0123456789'' ! n]
      else sprintNat (n div 10) @ [''0123456789'' ! (n mod 10)])"

declare sprintNat.simps [simp del]

definition sprintInt :: "int \<Rightarrow> string" where
  "sprintInt n = (if n < 0 then CHR ''-'' # sprintNat (nat (- n)) else sprintNat (nat n))"

subsection \<open>One record: decode, classify, build the attachment (lines 94 to 143)\<close>

definition severityColor :: "string \<Rightarrow> string" where
  "severityColor newStateValue =
     (if newStateValue = ''ALARM'' then ''danger''
      else if newStateValue = ''INSUFFICIENT_DATA'' then ''warning''
      else ''good'')"

text \<open>
  The attachment of one record; \<open>unixNano\<close> is the value \<open>time.Now().UnixNano()\<close>
  returned while the struct was built. The decoder gets a fresh zero-valued struct for
  every record and its error is dropped. The division of two \<open>int64\<close> truncates.
\<close>

definition newAttachment :: "env \<Rightarrow> SNSEventRecord \<Rightarrow> int64 \<Rightarrow> Attachment" where
  "newAttachment e eventRecord unixNano =
     (let cloudWatchAlarmEvent =
            snd (jsonDecode e (Message (SNS eventRecord)) zeroCloudWatchAlarmEvent);
          color = severityColor (NewStateValue cloudWatchAlarmEvent)
      in \<lparr>Color = color,
          Title = Subject (SNS eventRecord),
          Text = NewStateReason cloudWatchAlarmEvent,
          Footer = getenv e ''AWS_LAMBDA_FUNCTION_NAME'',
          FooterIcon = ''https://d1d05r7k0qlw4w.cloudfront.net/dist-cbe91c5a8477701757ff6752aae4c6f892018972/img/favicon.ico'',
          Ts = word_of_int (sint unixNano sdiv 1000000000),
          AttachmentField =
            [\<lparr>AttachmentField.Title = ''AccountID'',
              Value = AWSAccountID cloudWatchAlarmEvent, Short = True\<rparr>,
             \<lparr>AttachmentField.Title = ''Region'',
              Value = Region cloudWatchAlarmEvent, Short = True\<rparr>,
             \<lparr>AttachmentField.Title = ''Period'',
              Value = sprintInt (Period (Trigger cloudWatchAlarmEvent)), Short = True\<rparr>,
             \<lparr>AttachmentField.Title = ''Threshold'',
              Value = sprintFloat32 e (Threshold (Trigger cloudWatchAlarmEvent)), Short = True\<rparr>,
             \<lparr>AttachmentField.Title = ''Evaluated Periods'',
              Value = sprintInt (EvaluationPeriods (Trigger cloudWatchAlarmEvent)), Short = True\<rparr>,
             \<lparr>AttachmentField.Title = ''Comparison Operator'',
              Value = ComparisonOperator (Trigger cloudWatchAlarmEvent), Short = True\<rparr>]\<rparr>)"

subsection \<open>The loop over the records (lines 93 to 145)\<close>

text \<open>Each iteration reads the clock once and appends one attachment.\<close>

fun recordsLoop ::
  "env \<Rightarrow> SNSEventRecord list \<Rightarrow> Attachment list \<Rightarrow> world \<Rightarrow> Attachment list \<times> world" where
  "recordsLoop e [] slackAttachments w = (slackAttachments, w)"
| "recordsLoop e (eventRecord # rest) slackAttachments w =
     (let slackAttachment = newAttachment e eventRecord (timeNow e (clockReads w))
      in recordsLoop e rest (slackAttachments @ [slackAttachment])
           (w\<lparr>clockReads := Suc (clockReads w)\<rparr>))"

subsection \<open>Chunking and submission (lines 147 to 170)\<close>

text \<open>
  The slice expression \<open>s[lo:hi]\<close>. Go panics unless \<open>0 \<le> lo \<le> hi \<le> cap(s)\<close>; the
  model panics already when \<open>hi\<close> exceeds the length, which is at most the capacity, so
  a run without panic in the model is one without panic in Go.
\<close>

definition goSlice :: "'a list \<Rightarrow> int \<Rightarrow> int \<Rightarrow> panic + 'a list" where
  "goSlice s lo hi =
     (if 0 \<le> lo \<and> lo \<le> hi \<and> hi \<le> int (length s)
      then Inr (take (nat (hi - lo)) (drop (nat lo) s))
      else Inl SliceBoundsOutOfRange)"

text \<open>Lines 157 to 166: build the payload, send it, log the error or the response.\<close>

definition submitChunk :: "env \<Rightarrow> globals \<Rightarrow> Attachment list \<Rightarrow> world \<Rightarrow> world" where
  "submitChunk e g chunkedSlackAttachments w =
     (let payload = \<lparr>Channel = slackMonitorChannel g, Attachments = chunkedSlackAttachments\<rparr>;
          w' = w\<lparr>sendCalls := sendCalls w @ [payload]\<rparr>
      in case slackSend e (sendCalls w) payload of
           Inl err \<Rightarrow> w'\<lparr>logOut := logOut w' @ [ErrorLine err]\<rparr>
         | Inr resp \<Rightarrow> w'\<lparr>logOut := logOut w' @ [InfoLine resp]\<rparr>)"

text \<open>The index \<open>end\<close> of lines 151 to 154.\<close>

definition chunkEnd :: "globals \<Rightarrow> Attachment list \<Rightarrow> int \<Rightarrow> int" where
  "chunkEnd g slackAttachments i =
     (let end0 = i + slackAttachmentsChunkSize g
      in if end0 > int (length slackAttachments) then int (length slackAttachments) else end0)"

text \<open>
  The \<open>for\<close> loop of line 150, for any chunk size. Whether it returns is not built into
  the definition: \<open>None\<close> is a loop that runs forever, \<open>Some (Inl p)\<close> a panic.
\<close>

partial_function (option) chunkLoop ::
  "env \<Rightarrow> globals \<Rightarrow> Attachment list \<Rightarrow> int \<Rightarrow> world \<Rightarrow> (panic + world) option" where
  "chunkLoop e g slackAttachments i w =
     (if i < int (length slackAttachments) then
        (case goSlice slackAttachments i (chunkEnd g slackAttachments i) of
           Inl p \<Rightarrow> Some (Inl p)
         | Inr chunkedSlackAttachments \<Rightarrow>
             chunkLoop e g slackAttachments (i + slackAttachmentsChunkSize g)
               (submitChunk e g chunkedSlackAttachments w))
      else Some (Inr w))"

text \<open>
  \<open>HandleRequest\<close>. The context argument is not used. The result is the returned
  \<open>error\<close> with the world after the call, or a panic, or \<open>None\<close> when the handler does
  not return.
\<close>

definition HandleRequest ::
  "env \<Rightarrow> globals \<Rightarrow> SNSEvent \<Rightarrow> world \<Rightarrow> (panic + go_error option \<times> world) option" where
  "HandleRequest e g event w =
     (case recordsLoop e (Records event) [] w of
        (slackAttachments, w1) \<Rightarrow>
          if length slackAttachments \<noteq> 0 then
            (case chunkLoop e g slackAttachments 0 w1 of
               None \<Rightarrow> None
             | Some (Inl p) \<Rightarrow> Some (Inl p)
             | Some (Inr w2) \<Rightarrow> Some (Inr (None, w2)))
          else Some (Inr (None, w1\<lparr>logOut := logOut w1 @ [WarningLine ''No Slack Sent'']\<rparr>)))"

text \<open>
  The values the loop variable \<open>i\<close> of line 150 takes at the head of the loop: 0 at the
  start, and \<open>i + slackAttachmentsChunkSize\<close> after an iteration whose slice expression
  did not panic.
\<close>

inductive loopIndex :: "globals \<Rightarrow> Attachment list \<Rightarrow> int \<Rightarrow> bool"
  for g :: globals and slackAttachments :: "Attachment list" where
  loopStart: "loopIndex g slackAttachments 0"
| loopNext: "loopIndex g slackAttachments i \<Longrightarrow> i < int (length slackAttachments) \<Longrightarrow>
     goSlice slackAttachments i (chunkEnd g slackAttachments i) = Inr chunkedSlackAttachments \<Longrightarrow>
     loopIndex g slackAttachments (i + slackAttachmentsChunkSize g)"

code_pred loopIndex .

text \<open>The attachments the handler built for an event, and the calls to \<open>Send\<close> it added.\<close>

abbreviation fragments :: "env \<Rightarrow> SNSEvent \<Rightarrow> world \<Rightarrow> Attachment list" where
  "fragments e event w \<equiv> fst (recordsLoop e (Records event) [] w)"

abbreviation newSends :: "world \<Rightarrow> world \<Rightarrow> Payload list" where
  "newSends w w' \<equiv> drop (length (sendCalls w)) (sendCalls w')"

subsection \<open>Concrete inputs\<close>

text \<open>
  A small environment on which the theorems below are instantiated: a decoder that
  accepts one body and rejects every other one without writing to the struct, a clock,
  and a Slack client whose first call fails and whose later calls succeed.
\<close>

definition alarmBody :: string where
  \<open>alarmBody = ''{"NewStateValue":"ALARM"}''\<close>

definition exampleEnv :: env where
  "exampleEnv =
     \<lparr>jsonDecode = (\<lambda>body v.
         if body = alarmBody then (None, v\<lparr>NewStateValue := ''ALARM''\<rparr>)
         else (Some (GoError ''invalid character''), v)),
      getenv = (\<lambda>name.
         if name = ''SLACK_MONITOR_CHANNEL'' then ''#alerts''
         else if name = ''AWS_LAMBDA_FUNCTION_NAME'' then ''notifier'' else []),
      timeNow = (\<lambda>k. 1540000000000000000 + of_nat k),
      sprintFloat32 = (\<lambda>x. if x = 0 then ''0'' else ''?''),
      slackSend = (\<lambda>h p.
         if h = [] then Inl (SlackError ''timeout'') else Inr (SlackResponse ''ok''))\<rparr>"

definition alarmRecord :: SNSEventRecord where
  "alarmRecord = \<lparr>SNS = \<lparr>Message = alarmBody, Subject = ''ALARM: cpu''\<rparr>\<rparr>"

definition brokenRecord :: SNSEventRecord where
  "brokenRecord = \<lparr>SNS = \<lparr>Message = ''{not json'', Subject = ''broken''\<rparr>\<rparr>"

definition exampleWorld :: world where
  "exampleWorld = \<lparr>clockReads = 0, sendCalls = [], logOut = []\<rparr>"

text \<open>
  A body with data after a complete JSON value. A JSON text is one value between
  optional whitespace, so a text that begins with \<open>{\<close> is an object and ends, whitespace
  apart, with \<open>}\<close>; \<open>closedObjectText\<close> is this necessary condition, and a body that
  begins with \<open>{\<close> and fails it is not valid JSON.

  \<open>firstValueDecode\<close> is modelled from the documentation of \<open>encoding/json\<close>, which is
  not part of the repository: \<open>Decoder.Decode\<close> reads the next JSON value from its input
  and stores it, and leaves unread what follows that value. So for a body that begins,
  whitespace apart, with the object \<open>alarmBody\<close>, the value decoded is that object,
  whatever follows it. No other body is given to this decoder below.
\<close>

definition jsonWhitespace :: "char \<Rightarrow> bool" where
  "jsonWhitespace c = (c = CHR '' '' \<or> c = CHR 0x09 \<or> c = CHR 0x0A \<or> c = CHR 0x0D)"

definition closedObjectText :: "string \<Rightarrow> bool" where
  "closedObjectText body =
     (case (dropWhile jsonWhitespace body, dropWhile jsonWhitespace (rev body)) of
        (c # _, d # _) \<Rightarrow> c = CHR ''{'' \<and> d = CHR ''}''
      | _ \<Rightarrow> False)"

definition firstValueDecode ::
  "string \<Rightarrow> CloudWatchAlarmEvent \<Rightarrow> go_error option \<times> CloudWatchAlarmEvent" where
  "firstValueDecode body v =
     (if take (length alarmBody) (dropWhile jsonWhitespace body) = alarmBody
      then (None, v\<lparr>NewStateValue := ''ALARM''\<rparr>)
      else (Some (GoError ''invalid character''), v))"

definition streamEnv :: env where
  "streamEnv = exampleEnv\<lparr>jsonDecode := firstValueDecode\<rparr>"

definition trailingRecord :: SNSEventRecord where
  "trailingRecord =
     \<lparr>SNS = \<lparr>Message = alarmBody @ '' trailing garbage'', Subject = ''ALARM: cpu''\<rparr>\<rparr>"

section \<open>Lemmas on the two loops\<close>

lemma goSlice_chunk:
  assumes "0 < c" "slackAttachmentsChunkSize g = int c" "j < length atts"
  shows "goSlice atts (int j) (chunkEnd g atts (int j)) = Inr (take c (drop j atts))"
proof (cases "int j + int c > int (length atts)")
  case True
  then have "chunkEnd g atts (int j) = int (length atts)"
    using assms by (simp add: chunkEnd_def Let_def)
  moreover have "take (length atts - j) (drop j atts) = take c (drop j atts)"
    using True by simp
  ultimately show ?thesis using assms True by (simp add: goSlice_def)
next
  case False
  then have "chunkEnd g atts (int j) = int j + int c"
    using assms by (simp add: chunkEnd_def Let_def)
  then show ?thesis using assms False by (simp add: goSlice_def)
qed

lemma chunkLoop_step:
  assumes "0 < c" "slackAttachmentsChunkSize g = int c" "j < length atts"
  shows "chunkLoop e g atts (int j) w =
         chunkLoop e g atts (int (j + c)) (submitChunk e g (take c (drop j atts)) w)"
  using assms(2,3) by (subst chunkLoop.simps) (simp add: goSlice_chunk [OF assms])

lemma chunkLoop_exit:
  "length atts \<le> j \<Longrightarrow> chunkLoop e g atts (int j) w = Some (Inr w)"
  by (subst chunkLoop.simps) simp

lemma chunkLoop_unroll:
  assumes "0 < c" "slackAttachmentsChunkSize g = int c"
  shows "length atts \<le> j + c * m \<Longrightarrow> (m = 0 \<or> j + c * (m - 1) < length atts) \<Longrightarrow>
         chunkLoop e g atts (int j) w =
           Some (Inr (foldl (\<lambda>w' ch. submitChunk e g ch w') w
                        (map (\<lambda>k. take c (drop (j + c * k) atts)) [0..<m])))"
proof (induction m arbitrary: j w)
  case 0
  then show ?case by (simp add: chunkLoop_exit)
next
  case (Suc m)
  from Suc.prems(2) have "j + c * m < length atts" by simp
  then have lt: "j < length atts" by simp
  have a: "length atts \<le> (j + c) + c * m" using Suc.prems(1) by (simp add: algebra_simps)
  have b: "m = 0 \<or> (j + c) + c * (m - 1) < length atts"
  proof (cases m)
    case 0 then show ?thesis by simp
  next
    case (Suc m')
    with \<open>j + c * m < length atts\<close> show ?thesis by (simp add: algebra_simps)
  qed
  have idx: "[0..<Suc m] = 0 # map Suc [0..<m]"
    by (simp add: upt_conv_Cons map_Suc_upt del: upt_Suc)
  have shift: "map (\<lambda>k. take c (drop (j + c * k) atts)) (map Suc [0..<m]) =
               map (\<lambda>k. take c (drop ((j + c) + c * k) atts)) [0..<m]"
    by (simp add: algebra_simps)
  show ?case
    unfolding idx
    by (simp only: list.map foldl_Cons shift chunkLoop_step [OF assms lt] Suc.IH [OF a b])
       simp
qed

lemma submitChunk_sendCalls:
  "sendCalls (submitChunk e g ch w) =
     sendCalls w @ [\<lparr>Channel = slackMonitorChannel g, Attachments = ch\<rparr>]"
  by (simp add: submitChunk_def Let_def split: sum.split)

lemma submitChunk_clockReads: "clockReads (submitChunk e g ch w) = clockReads w"
  by (simp add: submitChunk_def Let_def split: sum.split)

lemma submitChunk_logOut:
  "logOut (submitChunk e g ch w) =
     logOut w @ [case slackSend e (sendCalls w) \<lparr>Channel = slackMonitorChannel g, Attachments = ch\<rparr> of
                   Inl err \<Rightarrow> ErrorLine err | Inr resp \<Rightarrow> InfoLine resp]"
  by (simp add: submitChunk_def Let_def split: sum.split)

lemma submitAll_sendCalls:
  "sendCalls (foldl (\<lambda>w' ch. submitChunk e g ch w') w chs) =
     sendCalls w @ map (\<lambda>ch. \<lparr>Channel = slackMonitorChannel g, Attachments = ch\<rparr>) chs"
  by (induction chs arbitrary: w) (simp_all add: submitChunk_sendCalls)

lemma submitAll_clockReads:
  "clockReads (foldl (\<lambda>w' ch. submitChunk e g ch w') w chs) = clockReads w"
  by (induction chs arbitrary: w) (simp_all add: submitChunk_clockReads)

lemma submitAll_logOut:
  "logOut (foldl (\<lambda>w' ch. submitChunk e g ch w') w chs) =
     logOut w @
     map (\<lambda>k. case slackSend e
                     (sendCalls w @
                      map (\<lambda>ch. \<lparr>Channel = slackMonitorChannel g, Attachments = ch\<rparr>) (take k chs))
                     \<lparr>Channel = slackMonitorChannel g, Attachments = chs ! k\<rparr> of
                 Inl err \<Rightarrow> ErrorLine err | Inr resp \<Rightarrow> InfoLine resp)
         [0..<length chs]"
proof (induction chs rule: rev_induct)
  case Nil
  then show ?case by simp
next
  case (snoc x xs)
  show ?case
    by (simp add: submitChunk_logOut submitAll_sendCalls snoc.IH nth_append)
qed

lemma concat_chunks:
  "concat (map (\<lambda>k. take c (drop (j + c * k) xs)) [0..<m]) = take (c * m) (drop j xs)"
proof (induction m)
  case 0
  then show ?case by simp
next
  case (Suc m)
  have "take (c * m + c) (drop j xs) = take (c * m) (drop j xs) @ take c (drop (j + c * m) xs)"
    using take_add [of "c * m" c "drop j xs"] by (simp add: add.commute)
  with Suc show ?case by (simp add: add.commute)
qed

lemma recordsLoop_eq:
  "recordsLoop e rs acc w =
     (acc @ map (\<lambda>k. newAttachment e (rs ! k) (timeNow e (clockReads w + k))) [0..<length rs],
      w\<lparr>clockReads := clockReads w + length rs\<rparr>)"
proof (induction rs arbitrary: acc w)
  case Nil
  then show ?case by simp
next
  case (Cons r rs)
  have idx: "[0..<length (r # rs)] = 0 # map Suc [0..<length rs]"
    by (simp add: upt_conv_Cons map_Suc_upt del: upt_Suc)
  show ?case
    unfolding idx by (simp add: Cons.IH Let_def o_def)
qed

lemma chunks100_cover: "n \<le> 100 * ((n + 99) div 100)" for n :: nat
proof -
  have "(n + 99) mod 100 < 100" by simp
  moreover have "100 * ((n + 99) div 100) + (n + 99) mod 100 = n + 99" by simp
  ultimately show ?thesis by linarith
qed

lemma chunks100_last: "(n + 99) div 100 = 0 \<or> 100 * ((n + 99) div 100 - 1) < n" for n :: nat
proof -
  have "100 * ((n + 99) div 100) + (n + 99) mod 100 = n + 99" by simp
  then show ?thesis by (cases "(n + 99) div 100") auto
qed

lemma ceiling_div100: "nat \<lceil>real n / 100\<rceil> = (n + 99) div 100"
proof -
  have m: "100 * ((n + 99) div 100) + (n + 99) mod 100 = n + 99" by simp
  have r: "(n + 99) mod 100 < 100" by simp
  define q where "q = (n + 99) div 100"
  have 1: "real n \<le> real (100 * q)" using chunks100_cover [of n] unfolding q_def by linarith
  have 2: "real (100 * q) < real n + 100" using m r unfolding q_def by linarith
  have "\<lceil>real n / 100\<rceil> = int q"
  proof (rule ceiling_unique)
    show "of_int (int q) - 1 < real n / 100" using 2 by simp
    show "real n / 100 \<le> of_int (int q)" using 1 by simp
  qed
  then show ?thesis by (simp add: q_def)
qed


lemma init_chunkSize: "slackAttachmentsChunkSize (init e) = int 100"
  by (simp add: init_def)

lemma chunkLoop_init:
  "chunkLoop e (init e) atts 0 w =
     Some (Inr (foldl (\<lambda>w' ch. submitChunk e (init e) ch w') w
                  (map (\<lambda>k. take 100 (drop (100 * k) atts)) [0..<(length atts + 99) div 100])))"
proof -
  have a: "length atts \<le> 0 + 100 * ((length atts + 99) div 100)"
    using chunks100_cover [of "length atts"] by simp
  have b: "(length atts + 99) div 100 = 0 \<or> 0 + 100 * ((length atts + 99) div 100 - 1) < length atts"
    using chunks100_last [of "length atts"] by simp
  have "chunkLoop e (init e) atts (int 0) w =
     Some (Inr (foldl (\<lambda>w' ch. submitChunk e (init e) ch w') w
                  (map (\<lambda>k. take 100 (drop (0 + 100 * k) atts)) [0..<(length atts + 99) div 100])))"
    by (rule chunkLoop_unroll [OF _ init_chunkSize a b]) simp
  then show ?thesis by simp
qed

lemma HandleRequest_nonempty:
  assumes "Records event \<noteq> []"
  shows "HandleRequest e (init e) event w =
     Some (Inr (None,
       foldl (\<lambda>w' ch. submitChunk e (init e) ch w')
         (w\<lparr>clockReads := clockReads w + length (Records event)\<rparr>)
         (map (\<lambda>k. take 100 (drop (100 * k) (fragments e event w)))
            [0..<(length (fragments e event w) + 99) div 100])))"
proof -
  obtain atts w1 where r: "recordsLoop e (Records event) [] w = (atts, w1)"
    by (cases "recordsLoop e (Records event) [] w")
  have w1: "w1 = w\<lparr>clockReads := clockReads w + length (Records event)\<rparr>"
    using r by (simp add: recordsLoop_eq)
  have len: "length atts = length (Records event)"
    using r by (auto simp add: recordsLoop_eq)
  with assms have ne: "length atts \<noteq> 0" by simp
  show ?thesis
    unfolding HandleRequest_def r using ne by (simp add: chunkLoop_init w1)
qed

lemma HandleRequest_empty:
  assumes "Records event = []"
  shows "HandleRequest e g event w =
     Some (Inr (None, w\<lparr>logOut := logOut w @ [WarningLine ''No Slack Sent'']\<rparr>))"
  using assms by (simp add: HandleRequest_def)

lemma loop_index_bounds:
  "loopIndex (init e) atts i \<Longrightarrow> 0 \<le> i \<and> i < int (length atts) + 100"
  by (induction rule: loopIndex.induct) (simp_all add: init_def)

lemma chunkEnd_bounds:
  assumes "0 \<le> i" "i < int (length atts)"
  shows "i < chunkEnd (init e) atts i \<and> chunkEnd (init e) atts i \<le> int (length atts)"
  using assms by (simp add: chunkEnd_def init_def Let_def)

lemma chunkLoop_negative:
  assumes "i < 0"
  shows "chunkLoop e g atts i w = Some (Inl SliceBoundsOutOfRange)"
proof -
  have "i < int (length atts)" using assms by simp
  moreover have "goSlice atts i (chunkEnd g atts i) = Inl SliceBoundsOutOfRange"
    using assms by (simp add: goSlice_def)
  ultimately show ?thesis by (subst chunkLoop.simps) simp
qed

lemma chunkLoop_returns:
  assumes "0 < slackAttachmentsChunkSize g"
  shows "\<exists>r. chunkLoop e g atts i w = Some r"
proof (cases "i < 0")
  case True
  then show ?thesis by (simp add: chunkLoop_negative)
next
  case False
  define c where "c = nat (slackAttachmentsChunkSize g)"
  define j where "j = nat i"
  have c: "0 < c" "slackAttachmentsChunkSize g = int c" using assms by (simp_all add: c_def)
  have i: "i = int j" using False by (simp add: j_def)
  have "\<exists>r. chunkLoop e g atts (int j) w = Some r"
  proof (induction "length atts - j" arbitrary: j w rule: less_induct)
    case less
    show ?case
    proof (cases "j < length atts")
      case True
      then have "length atts - (j + c) < length atts - j" using c(1) by simp
      from less [OF this] show ?thesis
        by (simp add: chunkLoop_step [OF c True])
    next
      case False
      then show ?thesis by (simp add: chunkLoop_exit)
    qed
  qed
  then show ?thesis by (simp add: i)
qed

subsection \<open>The handler as a whole\<close>

lemma recordsLoop_sendCalls: "sendCalls (snd (recordsLoop e rs acc w)) = sendCalls w"
  by (simp add: recordsLoop_eq)

lemma HandleRequest_total: "\<exists>w'. HandleRequest e (init e) event w = Some (Inr (None, w'))"
proof (cases "Records event = []")
  case True
  then show ?thesis by (simp add: HandleRequest_empty)
next
  case False
  then show ?thesis by (simp add: HandleRequest_nonempty)
qed

lemma HandleRequest_sendCalls:
  assumes "HandleRequest e (init e) event w = Some (Inr (None, w'))"
  shows "sendCalls w' =
     sendCalls w @
     map (\<lambda>k. \<lparr>Channel = getenv e ''SLACK_MONITOR_CHANNEL'',
                Attachments = take 100 (drop (100 * k) (fragments e event w))\<rparr>)
       [0..<(length (fragments e event w) + 99) div 100]"
proof (cases "Records event = []")
  case True
  then show ?thesis using assms by (auto simp add: HandleRequest_empty)
next
  case False
  have ch: "slackMonitorChannel (init e) = getenv e ''SLACK_MONITOR_CHANNEL''"
    by (simp add: init_def)
  from assms show ?thesis
    unfolding HandleRequest_nonempty [OF False]
    by (auto simp add: submitAll_sendCalls ch o_def)
qed

lemma HandleRequest_logOut:
  assumes "HandleRequest e (init e) event w = Some (Inr (None, w'))"
    and "Records event \<noteq> []"
  shows "logOut w' =
     logOut w @
     map (\<lambda>n. case slackSend e (take (length (sendCalls w) + n) (sendCalls w'))
                     (sendCalls w' ! (length (sendCalls w) + n)) of
                 Inl err \<Rightarrow> ErrorLine err | Inr resp \<Rightarrow> InfoLine resp)
       [0..<(length (fragments e event w) + 99) div 100]"
proof -
  let ?m = "(length (fragments e event w) + 99) div 100"
  let ?chs = "map (\<lambda>k. take 100 (drop (100 * k) (fragments e event w))) [0..<?m]"
  let ?w1 = "w\<lparr>clockReads := clockReads w + length (Records event)\<rparr>"
  let ?mk = "\<lambda>ch. \<lparr>Channel = slackMonitorChannel (init e), Attachments = ch\<rparr>"
  have w': "w' = foldl (\<lambda>w' ch. submitChunk e (init e) ch w') ?w1 ?chs"
    using assms(1) unfolding HandleRequest_nonempty [OF assms(2)] by simp
  have sc: "sendCalls w' = sendCalls w @ map ?mk ?chs"
    unfolding w' by (simp add: submitAll_sendCalls)
  have "logOut w' = logOut w @
     map (\<lambda>k. case slackSend e (sendCalls w @ map ?mk (take k ?chs)) (?mk (?chs ! k)) of
                 Inl err \<Rightarrow> ErrorLine err | Inr resp \<Rightarrow> InfoLine resp)
         [0..<length ?chs]"
    unfolding w' by (simp only: submitAll_logOut) simp
  also have "map (\<lambda>k. case slackSend e (sendCalls w @ map ?mk (take k ?chs)) (?mk (?chs ! k)) of
                 Inl err \<Rightarrow> ErrorLine err | Inr resp \<Rightarrow> InfoLine resp)
         [0..<length ?chs] =
     map (\<lambda>n. case slackSend e (take (length (sendCalls w) + n) (sendCalls w'))
                     (sendCalls w' ! (length (sendCalls w) + n)) of
                 Inl err \<Rightarrow> ErrorLine err | Inr resp \<Rightarrow> InfoLine resp)
       [0..<?m]"
  proof -
    have "length ?chs = ?m" by simp
    moreover have "\<And>n. n < ?m \<Longrightarrow>
        take (length (sendCalls w) + n) (sendCalls w') = sendCalls w @ map ?mk (take n ?chs)"
      unfolding sc by (simp add: take_map)
    moreover have "\<And>n. n < ?m \<Longrightarrow>
        sendCalls w' ! (length (sendCalls w) + n) = ?mk (?chs ! n)"
      unfolding sc by (simp add: nth_append)
    ultimately show ?thesis by (intro map_cong) (simp_all del: upt_Suc)
  qed
  finally show ?thesis .
qed

lemma groups_length:
  "length (map (\<lambda>k. take 100 (drop (100 * k) xs)) [0..<(length xs + 99) div 100]) =
     nat \<lceil>real (length xs) / 100\<rceil>"
  by (simp add: ceiling_div100)

lemma groups_full:
  assumes "Suc k < (length xs + 99) div 100"
  shows "length (take 100 (drop (100 * k) xs)) = 100"
proof -
  have "100 * ((length xs + 99) div 100) < length xs + 100"
    using chunks100_last [of "length xs"] assms
    by (cases "(length xs + 99) div 100") auto
  moreover have "100 * (Suc (Suc k)) \<le> 100 * ((length xs + 99) div 100)"
    using assms by (intro mult_le_mono2) simp
  ultimately have "100 * k + 100 \<le> length xs" by simp
  then show ?thesis by simp
qed

lemma groups_last:
  assumes "(length xs + 99) div 100 = Suc m"
  shows "length (take 100 (drop (100 * m) xs)) = length xs - 100 * m \<and>
         0 < length xs - 100 * m \<and> length xs - 100 * m \<le> 100"
proof -
  have "100 * m < length xs" using chunks100_last [of "length xs"] assms by simp
  moreover have "length xs \<le> 100 * Suc m" using chunks100_cover [of "length xs"] assms by simp
  ultimately show ?thesis by simp
qed

lemma groups_concat:
  "concat (map (\<lambda>k. take 100 (drop (100 * k) xs)) [0..<(length xs + 99) div 100]) = xs"
  using concat_chunks [of 100 0 xs "(length xs + 99) div 100"] chunks100_cover [of "length xs"]
  by simp

lemma sprintInt_zero: "sprintInt 0 = ''0''"
  by (simp add: sprintInt_def sprintNat.simps [of 0])

lemma fragment_of_decoded:
  assumes "j < length rs"
    and "jsonDecode e (Message (SNS (rs ! j))) zeroCloudWatchAlarmEvent = (r, ev)"
  shows "fst (recordsLoop e rs [] w) ! j =
     \<lparr>Color = severityColor (NewStateValue ev),
      Title = Subject (SNS (rs ! j)),
      Text = NewStateReason ev,
      Footer = getenv e ''AWS_LAMBDA_FUNCTION_NAME'',
      FooterIcon = ''https://d1d05r7k0qlw4w.cloudfront.net/dist-cbe91c5a8477701757ff6752aae4c6f892018972/img/favicon.ico'',
      Ts = word_of_int (sint (timeNow e (clockReads w + j)) sdiv 1000000000),
      AttachmentField =
        [\<lparr>AttachmentField.Title = ''AccountID'', Value = AWSAccountID ev, Short = True\<rparr>,
         \<lparr>AttachmentField.Title = ''Region'', Value = Region ev, Short = True\<rparr>,
         \<lparr>AttachmentField.Title = ''Period'',
          Value = sprintInt (Period (Trigger ev)), Short = True\<rparr>,
         \<lparr>AttachmentField.Title = ''Threshold'',
          Value = sprintFloat32 e (Threshold (Trigger ev)), Short = True\<rparr>,
         \<lparr>AttachmentField.Title = ''Evaluated Periods'',
          Value = sprintInt (EvaluationPeriods (Trigger ev)), Short = True\<rparr>,
         \<lparr>AttachmentField.Title = ''Comparison Operator'',
          Value = ComparisonOperator (Trigger ev), Short = True\<rparr>]\<rparr>"
  using assms by (simp add: recordsLoop_eq newAttachment_def Let_def)

lemma HandleRequest_groups:
  assumes "HandleRequest e (init e) event w = Some (Inr (None, w'))"
  shows "map Attachments (newSends w w') =
     map (\<lambda>k. take 100 (drop (100 * k) (fragments e event w)))
       [0..<(length (fragments e event w) + 99) div 100]"
  by (simp add: HandleRequest_sendCalls [OF assms] o_def)

lemma fragments_replicate_length:
  "length (fragments e \<lparr>Records = replicate n r\<rparr> w) = n"
  by (simp add: recordsLoop_eq)

section \<open>The claims\<close>

text \<open>
  C1: for every batch, with the chunk size 100 that \<open>init\<close> sets, the groups the handler
  submits (the attachment lists of the payloads it passes to \<open>Send\<close>, in the order of
  the calls) are as many as \<open>ceil(N / 100)\<close> for the \<open>N\<close> fragments of the batch;
  group \<open>k\<close> is the contiguous run of at most 100 fragments that starts at index
  \<open>100 * k\<close>; every group but the last has exactly 100 fragments and the last holds
  the remainder (between 1 and 100); the group sizes add up to \<open>N\<close>, so no fragment
  is in two groups; and the groups concatenated in order are the fragment sequence.
\<close>

theorem chunking_partitions_fragments:
  "\<exists>w'. HandleRequest e (init e) event w = Some (Inr (None, w')) \<and>
     (let atts = fragments e event w; gs = map Attachments (newSends w w')
      in length gs = nat \<lceil>real (length atts) / 100\<rceil> \<and>
         (\<forall>k<length gs. gs ! k = take 100 (drop (100 * k) atts)) \<and>
         (\<forall>k. Suc k < length gs \<longrightarrow> length (gs ! k) = 100) \<and>
         (gs \<noteq> [] \<longrightarrow> length (last gs) = length atts - 100 * (length gs - 1) \<and>
                      0 < length (last gs) \<and> length (last gs) \<le> 100) \<and>
         sum_list (map length gs) = length atts \<and>
         concat gs = atts)"
proof -
  obtain w' where run: "HandleRequest e (init e) event w = Some (Inr (None, w'))"
    using HandleRequest_total by blast
  define atts where "atts = fragments e event w"
  define m where "m = (length atts + 99) div 100"
  define gs where "gs = map Attachments (newSends w w')"
  have gs: "gs = map (\<lambda>k. take 100 (drop (100 * k) atts)) [0..<m]"
    unfolding gs_def m_def atts_def by (rule HandleRequest_groups [OF run])
  have len: "length gs = m" by (simp add: gs)
  have 1: "length gs = nat \<lceil>real (length atts) / 100\<rceil>"
    unfolding gs m_def by (rule groups_length)
  have 2: "\<forall>k<length gs. gs ! k = take 100 (drop (100 * k) atts)"
    by (simp add: gs)
  have 3: "\<forall>k. Suc k < length gs \<longrightarrow> length (gs ! k) = 100"
  proof (intro allI impI)
    fix k assume k: "Suc k < length gs"
    then have "k < length gs" by simp
    with 2 have "gs ! k = take 100 (drop (100 * k) atts)" by blast
    moreover have "length (take 100 (drop (100 * k) atts)) = 100"
      using k unfolding len m_def by (rule groups_full)
    ultimately show "length (gs ! k) = 100" by simp
  qed
  have 4: "gs \<noteq> [] \<longrightarrow> length (last gs) = length atts - 100 * (length gs - 1) \<and>
                      0 < length (last gs) \<and> length (last gs) \<le> 100"
  proof
    assume ne: "gs \<noteq> []"
    then obtain m' where m': "m = Suc m'" using len by (cases m) auto
    have "last gs = gs ! m'" using ne len m' by (simp add: last_conv_nth)
    also have "\<dots> = take 100 (drop (100 * m') atts)" using 2 len m' by simp
    finally have l: "last gs = take 100 (drop (100 * m') atts)" .
    from groups_last [of atts m'] m' have
      "length (take 100 (drop (100 * m') atts)) = length atts - 100 * m' \<and>
         0 < length atts - 100 * m' \<and> length atts - 100 * m' \<le> 100"
      unfolding m_def by blast
    then show "length (last gs) = length atts - 100 * (length gs - 1) \<and>
                      0 < length (last gs) \<and> length (last gs) \<le> 100"
      unfolding l len m' by simp
  qed
  have 6: "concat gs = atts" unfolding gs m_def by (rule groups_concat)
  have 5: "sum_list (map length gs) = length atts"
    using 6 length_concat [of gs] by simp
  have main: "HandleRequest e (init e) event w = Some (Inr (None, w')) \<and>
     (let atts = fragments e event w; gs = map Attachments (newSends w w')
      in length gs = nat \<lceil>real (length atts) / 100\<rceil> \<and>
         (\<forall>k<length gs. gs ! k = take 100 (drop (100 * k) atts)) \<and>
         (\<forall>k. Suc k < length gs \<longrightarrow> length (gs ! k) = 100) \<and>
         (gs \<noteq> [] \<longrightarrow> length (last gs) = length atts - 100 * (length gs - 1) \<and>
                      0 < length (last gs) \<and> length (last gs) \<le> 100) \<and>
         sum_list (map length gs) = length atts \<and>
         concat gs = atts)"
    unfolding Let_def atts_def [symmetric] gs_def [symmetric]
    by (intro conjI) (rule run 1 2 3 4 5 6)+
  show ?thesis by (rule exI [of _ w']) (rule main)
qed

theorem chunking_partitions_fragments_witness:
  "\<exists>w'. HandleRequest exampleEnv (init exampleEnv) \<lparr>Records = replicate 101 alarmRecord\<rparr>
          exampleWorld = Some (Inr (None, w')) \<and>
        map length (map Attachments (newSends exampleWorld w')) = [100, 1] \<and>
        concat (map Attachments (newSends exampleWorld w')) =
          fragments exampleEnv \<lparr>Records = replicate 101 alarmRecord\<rparr> exampleWorld"
proof -
  let ?ev = "\<lparr>Records = replicate 101 alarmRecord\<rparr>"
  define atts where "atts = fragments exampleEnv ?ev exampleWorld"
  have n: "length atts = 101" unfolding atts_def by (rule fragments_replicate_length)
  from chunking_partitions_fragments [of exampleEnv ?ev exampleWorld]
  obtain w' where run: "HandleRequest exampleEnv (init exampleEnv) ?ev exampleWorld =
        Some (Inr (None, w'))"
    and len: "length (map Attachments (newSends exampleWorld w')) = nat \<lceil>real (length atts) / 100\<rceil>"
    and full: "\<forall>k. Suc k < length (map Attachments (newSends exampleWorld w')) \<longrightarrow>
                 length (map Attachments (newSends exampleWorld w') ! k) = 100"
    and rest: "map Attachments (newSends exampleWorld w') \<noteq> [] \<longrightarrow>
                 length (last (map Attachments (newSends exampleWorld w'))) =
                 length atts - 100 * (length (map Attachments (newSends exampleWorld w')) - 1)"
    and cat: "concat (map Attachments (newSends exampleWorld w')) = atts"
    unfolding Let_def atts_def by blast
  define gs where "gs = map Attachments (newSends exampleWorld w')"
  have l2: "length gs = 2"
    using len unfolding gs_def [symmetric] n by (simp add: ceiling_div100)
  then have ne: "gs \<noteq> []" by auto
  have g0: "length (gs ! 0) = 100"
    using full l2 unfolding gs_def [symmetric] by simp
  have "last gs = gs ! 1" using l2 ne by (simp add: last_conv_nth)
  moreover have "length (last gs) = 1"
    using rest ne l2 n unfolding gs_def [symmetric] by simp
  ultimately have g1: "length (gs ! 1) = 1" by simp
  have "map length gs = [100, 1]"
  proof (rule nth_equalityI)
    show "length (map length gs) = length [100, 1 :: nat]" using l2 by simp
  next
    fix i assume "i < length (map length gs)"
    then have "i = 0 \<or> i = 1" using l2 by auto
    then show "map length gs ! i = [100, 1] ! i" using g0 g1 l2 by auto
  qed
  then have main: "HandleRequest exampleEnv (init exampleEnv) ?ev exampleWorld =
        Some (Inr (None, w')) \<and>
        map length (map Attachments (newSends exampleWorld w')) = [100, 1] \<and>
        concat (map Attachments (newSends exampleWorld w')) =
          fragments exampleEnv ?ev exampleWorld"
    using run cat unfolding gs_def atts_def by simp
  show ?thesis by (rule exI [of _ w']) (rule main)
qed

text \<open>
  C2: a batch of \<open>N\<close> records, for every \<open>N\<close>, gives exactly \<open>N\<close> fragments, and the
  fragment at position \<open>i\<close> is the one built from the record at position \<open>i\<close> (with
  the clock reading of iteration \<open>i\<close>). These are the fragments of the handler.
\<close>

theorem one_fragment_per_record:
  "length (fst (recordsLoop e rs [] w)) = length rs \<and>
   (\<forall>i<length rs. fst (recordsLoop e rs [] w) ! i =
       newAttachment e (rs ! i) (timeNow e (clockReads w + i))) \<and>
   fragments e \<lparr>Records = rs\<rparr> w = fst (recordsLoop e rs [] w)"
  by (simp add: recordsLoop_eq)

theorem one_fragment_per_record_witness:
  "length (fst (recordsLoop exampleEnv [brokenRecord, alarmRecord] [] exampleWorld)) = 2 \<and>
   (1::nat) < length [brokenRecord, alarmRecord] \<and>
   fst (recordsLoop exampleEnv [brokenRecord, alarmRecord] [] exampleWorld) ! 1 =
     newAttachment exampleEnv alarmRecord (timeNow exampleEnv 1) \<and>
   Color (fst (recordsLoop exampleEnv [brokenRecord, alarmRecord] [] exampleWorld) ! 1) = ''danger''"
proof -
  have c: "Color (newAttachment exampleEnv alarmRecord (timeNow exampleEnv 1)) = ''danger''"
    by (simp add: newAttachment_def exampleEnv_def alarmRecord_def severityColor_def Let_def)
  from one_fragment_per_record [of exampleEnv "[brokenRecord, alarmRecord]" exampleWorld]
  show ?thesis using c by (simp add: exampleWorld_def)
qed

text \<open>
  C3: the colour of a fragment is a total function of the decoded new-state string. It is
  the danger tag exactly for \<open>ALARM\<close>, the warning tag exactly for \<open>INSUFFICIENT_DATA\<close>
  and the good tag for every other string, among them the empty string and \<open>OK\<close>; and
  this function is what fills the field \<open>Color\<close> of the attachment of a record.
\<close>

theorem severity_classification:
  "(severityColor s = ''danger'') = (s = ''ALARM'') \<and>
   (severityColor s = ''warning'') = (s = ''INSUFFICIENT_DATA'') \<and>
   (severityColor s = ''good'') = (s \<noteq> ''ALARM'' \<and> s \<noteq> ''INSUFFICIENT_DATA'') \<and>
   severityColor [] = ''good'' \<and>
   severityColor ''OK'' = ''good'' \<and>
   Color (newAttachment e eventRecord unixNano) =
     severityColor (NewStateValue
       (snd (jsonDecode e (Message (SNS eventRecord)) zeroCloudWatchAlarmEvent)))"
  by (simp add: severityColor_def newAttachment_def Let_def)

text \<open>
  C4: for the batch with no record the handler returns without any call to \<open>Send\<close>, and
  the only thing it writes is one warning, \<open>No Slack Sent\<close>. This holds for every value
  of the package variables.
\<close>

theorem empty_batch_nothing_sent:
  "HandleRequest e g \<lparr>Records = []\<rparr> w =
     Some (Inr (None, w\<lparr>logOut := logOut w @ [WarningLine ''No Slack Sent'']\<rparr>)) \<and>
   (\<exists>w'. HandleRequest e g \<lparr>Records = []\<rparr> w = Some (Inr (None, w')) \<and>
      sendCalls w' = sendCalls w \<and>
      logOut w' = logOut w @ [WarningLine ''No Slack Sent''])"
  by (simp add: HandleRequest_empty)

text \<open>
  C5, amended: let record \<open>i\<close> of a batch have a body that the decoder rejects: it
  reports an error and has written nothing into the fresh struct, as \<open>json.Decoder\<close>
  does when the first JSON value of the body is malformed. Then the handler still
  returns \<open>nil\<close> and submits all fragments, one per record; fragment \<open>i\<close> carries the
  zero values in every field that comes from the alarm (good colour, empty text, empty
  account, region and operator, \<open>0\<close> for the period, the threshold and the evaluation
  periods); and every record \<open>j\<close> that the decoder accepts, before or after \<open>i\<close>, has
  the fragment made of its own subject and its own decoded event.
\<close>

theorem malformed_record_default_fragment:
  assumes "i < length (Records event)"
    and "jsonDecode e (Message (SNS (Records event ! i))) zeroCloudWatchAlarmEvent =
           (Some err, zeroCloudWatchAlarmEvent)"
  shows "\<exists>w'. HandleRequest e (init e) event w = Some (Inr (None, w')) \<and>
     concat (map Attachments (newSends w w')) = fragments e event w \<and>
     length (fragments e event w) = length (Records event) \<and>
     fragments e event w ! i =
       \<lparr>Color = ''good'',
        Title = Subject (SNS (Records event ! i)),
        Text = [],
        Footer = getenv e ''AWS_LAMBDA_FUNCTION_NAME'',
        FooterIcon = ''https://d1d05r7k0qlw4w.cloudfront.net/dist-cbe91c5a8477701757ff6752aae4c6f892018972/img/favicon.ico'',
        Ts = word_of_int (sint (timeNow e (clockReads w + i)) sdiv 1000000000),
        AttachmentField =
          [\<lparr>AttachmentField.Title = ''AccountID'', Value = [], Short = True\<rparr>,
           \<lparr>AttachmentField.Title = ''Region'', Value = [], Short = True\<rparr>,
           \<lparr>AttachmentField.Title = ''Period'', Value = ''0'', Short = True\<rparr>,
           \<lparr>AttachmentField.Title = ''Threshold'', Value = sprintFloat32 e 0, Short = True\<rparr>,
           \<lparr>AttachmentField.Title = ''Evaluated Periods'', Value = ''0'', Short = True\<rparr>,
           \<lparr>AttachmentField.Title = ''Comparison Operator'', Value = [], Short = True\<rparr>]\<rparr> \<and>
     (\<forall>j<length (Records event). \<forall>ev.
        jsonDecode e (Message (SNS (Records event ! j))) zeroCloudWatchAlarmEvent = (None, ev) \<longrightarrow>
        fragments e event w ! j =
          \<lparr>Color = severityColor (NewStateValue ev),
           Title = Subject (SNS (Records event ! j)),
           Text = NewStateReason ev,
           Footer = getenv e ''AWS_LAMBDA_FUNCTION_NAME'',
           FooterIcon = ''https://d1d05r7k0qlw4w.cloudfront.net/dist-cbe91c5a8477701757ff6752aae4c6f892018972/img/favicon.ico'',
           Ts = word_of_int (sint (timeNow e (clockReads w + j)) sdiv 1000000000),
           AttachmentField =
             [\<lparr>AttachmentField.Title = ''AccountID'', Value = AWSAccountID ev, Short = True\<rparr>,
              \<lparr>AttachmentField.Title = ''Region'', Value = Region ev, Short = True\<rparr>,
              \<lparr>AttachmentField.Title = ''Period'',
               Value = sprintInt (Period (Trigger ev)), Short = True\<rparr>,
              \<lparr>AttachmentField.Title = ''Threshold'',
               Value = sprintFloat32 e (Threshold (Trigger ev)), Short = True\<rparr>,
              \<lparr>AttachmentField.Title = ''Evaluated Periods'',
               Value = sprintInt (EvaluationPeriods (Trigger ev)), Short = True\<rparr>,
              \<lparr>AttachmentField.Title = ''Comparison Operator'',
               Value = ComparisonOperator (Trigger ev), Short = True\<rparr>]\<rparr>)"
proof -
  obtain w' where run: "HandleRequest e (init e) event w = Some (Inr (None, w'))"
    using HandleRequest_total by blast
  have a: "concat (map Attachments (newSends w w')) = fragments e event w"
    unfolding HandleRequest_groups [OF run] by (rule groups_concat)
  have b: "length (fragments e event w) = length (Records event)"
    by (simp add: recordsLoop_eq)
  have c: "fragments e event w ! i =
       \<lparr>Color = ''good'',
        Title = Subject (SNS (Records event ! i)),
        Text = [],
        Footer = getenv e ''AWS_LAMBDA_FUNCTION_NAME'',
        FooterIcon = ''https://d1d05r7k0qlw4w.cloudfront.net/dist-cbe91c5a8477701757ff6752aae4c6f892018972/img/favicon.ico'',
        Ts = word_of_int (sint (timeNow e (clockReads w + i)) sdiv 1000000000),
        AttachmentField =
          [\<lparr>AttachmentField.Title = ''AccountID'', Value = [], Short = True\<rparr>,
           \<lparr>AttachmentField.Title = ''Region'', Value = [], Short = True\<rparr>,
           \<lparr>AttachmentField.Title = ''Period'', Value = ''0'', Short = True\<rparr>,
           \<lparr>AttachmentField.Title = ''Threshold'', Value = sprintFloat32 e 0, Short = True\<rparr>,
           \<lparr>AttachmentField.Title = ''Evaluated Periods'', Value = ''0'', Short = True\<rparr>,
           \<lparr>AttachmentField.Title = ''Comparison Operator'', Value = [], Short = True\<rparr>]\<rparr>"
    unfolding fragment_of_decoded [OF assms]
    by (simp add: zeroCloudWatchAlarmEvent_def zeroTrigger_def severityColor_def sprintInt_zero)
  have d: "\<forall>j<length (Records event). \<forall>ev.
        jsonDecode e (Message (SNS (Records event ! j))) zeroCloudWatchAlarmEvent = (None, ev) \<longrightarrow>
        fragments e event w ! j =
          \<lparr>Color = severityColor (NewStateValue ev),
           Title = Subject (SNS (Records event ! j)),
           Text = NewStateReason ev,
           Footer = getenv e ''AWS_LAMBDA_FUNCTION_NAME'',
           FooterIcon = ''https://d1d05r7k0qlw4w.cloudfront.net/dist-cbe91c5a8477701757ff6752aae4c6f892018972/img/favicon.ico'',
           Ts = word_of_int (sint (timeNow e (clockReads w + j)) sdiv 1000000000),
           AttachmentField =
             [\<lparr>AttachmentField.Title = ''AccountID'', Value = AWSAccountID ev, Short = True\<rparr>,
              \<lparr>AttachmentField.Title = ''Region'', Value = Region ev, Short = True\<rparr>,
              \<lparr>AttachmentField.Title = ''Period'',
               Value = sprintInt (Period (Trigger ev)), Short = True\<rparr>,
              \<lparr>AttachmentField.Title = ''Threshold'',
               Value = sprintFloat32 e (Threshold (Trigger ev)), Short = True\<rparr>,
              \<lparr>AttachmentField.Title = ''Evaluated Periods'',
               Value = sprintInt (EvaluationPeriods (Trigger ev)), Short = True\<rparr>,
              \<lparr>AttachmentField.Title = ''Comparison Operator'',
               Value = ComparisonOperator (Trigger ev), Short = True\<rparr>]\<rparr>"
  proof (intro allI impI)
    fix j ev
    assume "j < length (Records event)"
      and "jsonDecode e (Message (SNS (Records event ! j))) zeroCloudWatchAlarmEvent = (None, ev)"
    then show "fragments e event w ! j =
          \<lparr>Color = severityColor (NewStateValue ev),
           Title = Subject (SNS (Records event ! j)),
           Text = NewStateReason ev,
           Footer = getenv e ''AWS_LAMBDA_FUNCTION_NAME'',
           FooterIcon = ''https://d1d05r7k0qlw4w.cloudfront.net/dist-cbe91c5a8477701757ff6752aae4c6f892018972/img/favicon.ico'',
           Ts = word_of_int (sint (timeNow e (clockReads w + j)) sdiv 1000000000),
           AttachmentField =
             [\<lparr>AttachmentField.Title = ''AccountID'', Value = AWSAccountID ev, Short = True\<rparr>,
              \<lparr>AttachmentField.Title = ''Region'', Value = Region ev, Short = True\<rparr>,
              \<lparr>AttachmentField.Title = ''Period'',
               Value = sprintInt (Period (Trigger ev)), Short = True\<rparr>,
              \<lparr>AttachmentField.Title = ''Threshold'',
               Value = sprintFloat32 e (Threshold (Trigger ev)), Short = True\<rparr>,
              \<lparr>AttachmentField.Title = ''Evaluated Periods'',
               Value = sprintInt (EvaluationPeriods (Trigger ev)), Short = True\<rparr>,
              \<lparr>AttachmentField.Title = ''Comparison Operator'',
               Value = ComparisonOperator (Trigger ev), Short = True\<rparr>]\<rparr>"
      by (rule fragment_of_decoded)
  qed
  have main: "HandleRequest e (init e) event w = Some (Inr (None, w')) \<and>
     concat (map Attachments (newSends w w')) = fragments e event w \<and>
     length (fragments e event w) = length (Records event) \<and>
     fragments e event w ! i =
       \<lparr>Color = ''good'',
        Title = Subject (SNS (Records event ! i)),
        Text = [],
        Footer = getenv e ''AWS_LAMBDA_FUNCTION_NAME'',
        FooterIcon = ''https://d1d05r7k0qlw4w.cloudfront.net/dist-cbe91c5a8477701757ff6752aae4c6f892018972/img/favicon.ico'',
        Ts = word_of_int (sint (timeNow e (clockReads w + i)) sdiv 1000000000),
        AttachmentField =
          [\<lparr>AttachmentField.Title = ''AccountID'', Value = [], Short = True\<rparr>,
           \<lparr>AttachmentField.Title = ''Region'', Value = [], Short = True\<rparr>,
           \<lparr>AttachmentField.Title = ''Period'', Value = ''0'', Short = True\<rparr>,
           \<lparr>AttachmentField.Title = ''Threshold'', Value = sprintFloat32 e 0, Short = True\<rparr>,
           \<lparr>AttachmentField.Title = ''Evaluated Periods'', Value = ''0'', Short = True\<rparr>,
           \<lparr>AttachmentField.Title = ''Comparison Operator'', Value = [], Short = True\<rparr>]\<rparr> \<and>
     (\<forall>j<length (Records event). \<forall>ev.
        jsonDecode e (Message (SNS (Records event ! j))) zeroCloudWatchAlarmEvent = (None, ev) \<longrightarrow>
        fragments e event w ! j =
          \<lparr>Color = severityColor (NewStateValue ev),
           Title = Subject (SNS (Records event ! j)),
           Text = NewStateReason ev,
           Footer = getenv e ''AWS_LAMBDA_FUNCTION_NAME'',
           FooterIcon = ''https://d1d05r7k0qlw4w.cloudfront.net/dist-cbe91c5a8477701757ff6752aae4c6f892018972/img/favicon.ico'',
           Ts = word_of_int (sint (timeNow e (clockReads w + j)) sdiv 1000000000),
           AttachmentField =
             [\<lparr>AttachmentField.Title = ''AccountID'', Value = AWSAccountID ev, Short = True\<rparr>,
              \<lparr>AttachmentField.Title = ''Region'', Value = Region ev, Short = True\<rparr>,
              \<lparr>AttachmentField.Title = ''Period'',
               Value = sprintInt (Period (Trigger ev)), Short = True\<rparr>,
              \<lparr>AttachmentField.Title = ''Threshold'',
               Value = sprintFloat32 e (Threshold (Trigger ev)), Short = True\<rparr>,
              \<lparr>AttachmentField.Title = ''Evaluated Periods'',
               Value = sprintInt (EvaluationPeriods (Trigger ev)), Short = True\<rparr>,
              \<lparr>AttachmentField.Title = ''Comparison Operator'',
               Value = ComparisonOperator (Trigger ev), Short = True\<rparr>]\<rparr>)"
    by (intro conjI) (rule run a b c d)+
  show ?thesis by (rule exI [of _ w']) (rule main)
qed

theorem malformed_record_default_fragment_witness:
  "(1::nat) < length (Records \<lparr>Records = [alarmRecord, brokenRecord, alarmRecord]\<rparr>) \<and>
   jsonDecode exampleEnv
      (Message (SNS (Records \<lparr>Records = [alarmRecord, brokenRecord, alarmRecord]\<rparr> ! 1)))
      zeroCloudWatchAlarmEvent = (Some (GoError ''invalid character''), zeroCloudWatchAlarmEvent) \<and>
   (\<exists>w'. HandleRequest exampleEnv (init exampleEnv)
            \<lparr>Records = [alarmRecord, brokenRecord, alarmRecord]\<rparr> exampleWorld =
              Some (Inr (None, w'))) \<and>
   map Color (fragments exampleEnv \<lparr>Records = [alarmRecord, brokenRecord, alarmRecord]\<rparr>
                exampleWorld) = [''danger'', ''good'', ''danger'']"
proof -
  let ?ev = "\<lparr>Records = [alarmRecord, brokenRecord, alarmRecord]\<rparr>"
  let ?fr = "fragments exampleEnv ?ev exampleWorld"
  have h1: "(1::nat) < length (Records ?ev)" by simp
  have h2: "jsonDecode exampleEnv (Message (SNS (Records ?ev ! 1))) zeroCloudWatchAlarmEvent =
      (Some (GoError ''invalid character''), zeroCloudWatchAlarmEvent)"
    by (simp add: exampleEnv_def brokenRecord_def alarmBody_def)
  have ok: "jsonDecode exampleEnv (Message (SNS alarmRecord)) zeroCloudWatchAlarmEvent =
      (None, zeroCloudWatchAlarmEvent\<lparr>NewStateValue := ''ALARM''\<rparr>)"
    by (simp add: exampleEnv_def alarmRecord_def)
  from malformed_record_default_fragment [OF h1 h2, of exampleWorld]
  obtain w' where run: "HandleRequest exampleEnv (init exampleEnv) ?ev exampleWorld =
        Some (Inr (None, w'))"
    and len: "length ?fr = length (Records ?ev)"
    and bad: "Color (?fr ! 1) = ''good''"
    and good: "\<forall>j<length (Records ?ev). \<forall>ev.
        jsonDecode exampleEnv (Message (SNS (Records ?ev ! j))) zeroCloudWatchAlarmEvent = (None, ev) \<longrightarrow>
        Color (?fr ! j) = severityColor (NewStateValue ev)"
    by auto
  have c0: "Color (?fr ! 0) = ''danger''"
    using good [rule_format, of 0 "zeroCloudWatchAlarmEvent\<lparr>NewStateValue := ''ALARM''\<rparr>"] ok
    by (simp add: severityColor_def)
  have c2: "Color (?fr ! 2) = ''danger''"
    using good [rule_format, of 2 "zeroCloudWatchAlarmEvent\<lparr>NewStateValue := ''ALARM''\<rparr>"] ok
    by (simp add: severityColor_def)
  have l3: "length ?fr = 3" using len by simp
  have "map Color ?fr = [''danger'', ''good'', ''danger'']"
  proof (rule nth_equalityI)
    show "length (map Color ?fr) = length [''danger'', ''good'', ''danger'']" using l3 by simp
  next
    fix i assume "i < length (map Color ?fr)"
    then have "i = 0 \<or> i = 1 \<or> i = 2" using l3 by auto
    then show "map Color ?fr ! i = [''danger'', ''good'', ''danger''] ! i"
      using c0 bad c2 l3 by auto
  qed
  with h1 h2 run show ?thesis by blast
qed

text \<open>
  C5 as the specification words it, for every body that is not valid JSON, does not
  hold. The body below is the object \<open>alarmBody\<close> followed by other text: it is not
  valid JSON, yet the decoder reads the object, reports no error and fills in the new
  state, and the fragment of the record is tagged danger instead of carrying the
  zero values.
\<close>

theorem malformed_body_counterexample:
  \<open>Message (SNS trailingRecord) = ''{"NewStateValue":"ALARM"} trailing garbage'' \<and>
   hd (Message (SNS trailingRecord)) = CHR ''{'' \<and>
   \<not> closedObjectText (Message (SNS trailingRecord)) \<and>
   jsonDecode streamEnv (Message (SNS trailingRecord)) zeroCloudWatchAlarmEvent =
     (None, zeroCloudWatchAlarmEvent\<lparr>NewStateValue := ''ALARM''\<rparr>) \<and>
   length (fragments streamEnv \<lparr>Records = [trailingRecord]\<rparr> exampleWorld) = 1 \<and>
   Color (fragments streamEnv \<lparr>Records = [trailingRecord]\<rparr> exampleWorld ! 0) = ''danger'' \<and>
   Color (fragments streamEnv \<lparr>Records = [trailingRecord]\<rparr> exampleWorld ! 0) \<noteq> ''good''\<close>
proof -
  have body: \<open>Message (SNS trailingRecord) = ''{"NewStateValue":"ALARM"} trailing garbage''\<close>
    by (simp add: trailingRecord_def alarmBody_def)
  have shape: "hd (Message (SNS trailingRecord)) = CHR ''{''"
    "\<not> closedObjectText (Message (SNS trailingRecord))"
    unfolding body by (simp_all add: closedObjectText_def jsonWhitespace_def)
  have "dropWhile jsonWhitespace (Message (SNS trailingRecord)) = Message (SNS trailingRecord)"
    unfolding body by (simp add: jsonWhitespace_def)
  then have dec: "jsonDecode streamEnv (Message (SNS trailingRecord)) zeroCloudWatchAlarmEvent =
     (None, zeroCloudWatchAlarmEvent\<lparr>NewStateValue := ''ALARM''\<rparr>)"
    by (simp add: streamEnv_def firstValueDecode_def trailingRecord_def)
  have col: "Color (fragments streamEnv \<lparr>Records = [trailingRecord]\<rparr> exampleWorld ! 0) = ''danger''"
    using fragment_of_decoded [of 0 "[trailingRecord]" streamEnv None
        "zeroCloudWatchAlarmEvent\<lparr>NewStateValue := ''ALARM''\<rparr>" exampleWorld] dec
    by (simp add: severityColor_def)
  have len: "length (fragments streamEnv \<lparr>Records = [trailingRecord]\<rparr> exampleWorld) = 1"
    by (simp add: recordsLoop_eq)
  show ?thesis
    using body shape dec len col by simp
qed

text \<open>
  C6: with the package variables as \<open>init\<close> sets them, the handler returns, without a
  panic, the error \<open>nil\<close>, for every event, every decoder and every Slack client,
  whatever the decoder and the client answer.
\<close>

theorem handler_returns_nil:
  "\<exists>w'. HandleRequest e (init e) event w = Some (Inr (None, w'))"
proof (cases "Records event = []")
  case True
  then show ?thesis by (simp add: HandleRequest_empty)
next
  case False
  then show ?thesis by (simp add: HandleRequest_nonempty)
qed

text \<open>
  C7: for every Slack client, whatever it answers to each call, the calls the handler
  makes are exactly the groups of the batch, each once, in the order of the fragments:
  a failure changes neither the number nor the order nor the content of the later
  calls, and nothing is sent twice. For a batch with at least one record the log has one
  line per call, in order: the error when the call failed, the response otherwise.
\<close>

theorem every_group_submitted:
  "\<exists>w'. HandleRequest e (init e) event w = Some (Inr (None, w')) \<and>
     sendCalls w' =
       sendCalls w @
       map (\<lambda>k. \<lparr>Channel = getenv e ''SLACK_MONITOR_CHANNEL'',
                  Attachments = take 100 (drop (100 * k) (fragments e event w))\<rparr>)
         [0..<(length (fragments e event w) + 99) div 100] \<and>
     (Records event \<noteq> [] \<longrightarrow>
        logOut w' =
          logOut w @
          map (\<lambda>n. case slackSend e (take (length (sendCalls w) + n) (sendCalls w'))
                          (sendCalls w' ! (length (sendCalls w) + n)) of
                      Inl err \<Rightarrow> ErrorLine err | Inr resp \<Rightarrow> InfoLine resp)
            [0..<(length (fragments e event w) + 99) div 100])"
proof -
  obtain w' where run: "HandleRequest e (init e) event w = Some (Inr (None, w'))"
    using HandleRequest_total by blast
  have "Records event \<noteq> [] \<longrightarrow>
        logOut w' =
          logOut w @
          map (\<lambda>n. case slackSend e (take (length (sendCalls w) + n) (sendCalls w'))
                          (sendCalls w' ! (length (sendCalls w) + n)) of
                      Inl err \<Rightarrow> ErrorLine err | Inr resp \<Rightarrow> InfoLine resp)
            [0..<(length (fragments e event w) + 99) div 100]"
    by (intro impI) (rule HandleRequest_logOut [OF run])
  with run HandleRequest_sendCalls [OF run]
  have main: "HandleRequest e (init e) event w = Some (Inr (None, w')) \<and>
     sendCalls w' =
       sendCalls w @
       map (\<lambda>k. \<lparr>Channel = getenv e ''SLACK_MONITOR_CHANNEL'',
                  Attachments = take 100 (drop (100 * k) (fragments e event w))\<rparr>)
         [0..<(length (fragments e event w) + 99) div 100] \<and>
     (Records event \<noteq> [] \<longrightarrow>
        logOut w' =
          logOut w @
          map (\<lambda>n. case slackSend e (take (length (sendCalls w) + n) (sendCalls w'))
                          (sendCalls w' ! (length (sendCalls w) + n)) of
                      Inl err \<Rightarrow> ErrorLine err | Inr resp \<Rightarrow> InfoLine resp)
            [0..<(length (fragments e event w) + 99) div 100])"
    by (intro conjI)
  show ?thesis by (rule exI [of _ w']) (rule main)
qed

theorem every_group_submitted_witness:
  "\<exists>w'. HandleRequest exampleEnv (init exampleEnv) \<lparr>Records = replicate 101 alarmRecord\<rparr>
          exampleWorld = Some (Inr (None, w')) \<and>
        map (length \<circ> Attachments) (sendCalls w') = [100, 1] \<and>
        logOut w' = [ErrorLine (SlackError ''timeout''), InfoLine (SlackResponse ''ok'')]"
proof -
  let ?ev = "\<lparr>Records = replicate 101 alarmRecord\<rparr>"
  define atts where "atts = fragments exampleEnv ?ev exampleWorld"
  have n: "length atts = 101" unfolding atts_def by (rule fragments_replicate_length)
  have m: "(length atts + 99) div 100 = 2" unfolding n by simp
  have two: "[0..<2] = [0, Suc 0]" by (simp add: upt_rec)
  have ne: "Records ?ev \<noteq> []" by simp
  from every_group_submitted [of exampleEnv ?ev exampleWorld]
  obtain w' where run: "HandleRequest exampleEnv (init exampleEnv) ?ev exampleWorld =
        Some (Inr (None, w'))"
    and sc: "sendCalls w' = sendCalls exampleWorld @
       map (\<lambda>k. \<lparr>Channel = getenv exampleEnv ''SLACK_MONITOR_CHANNEL'',
                  Attachments = take 100 (drop (100 * k) atts)\<rparr>) [0..<(length atts + 99) div 100]"
    and lg: "Records ?ev \<noteq> [] \<longrightarrow> logOut w' = logOut exampleWorld @
          map (\<lambda>n. case slackSend exampleEnv (take (length (sendCalls exampleWorld) + n) (sendCalls w'))
                          (sendCalls w' ! (length (sendCalls exampleWorld) + n)) of
                      Inl err \<Rightarrow> ErrorLine err | Inr resp \<Rightarrow> InfoLine resp)
            [0..<(length atts + 99) div 100]"
    unfolding atts_def by blast
  have sc': "sendCalls w' =
      [\<lparr>Channel = getenv exampleEnv ''SLACK_MONITOR_CHANNEL'', Attachments = take 100 atts\<rparr>,
       \<lparr>Channel = getenv exampleEnv ''SLACK_MONITOR_CHANNEL'', Attachments = drop 100 atts\<rparr>]"
    using sc n unfolding m two by (simp add: exampleWorld_def)
  have a: "map (length \<circ> Attachments) (sendCalls w') = [100, 1]"
    unfolding sc' using n by simp
  have s0: "slackSend exampleEnv [] p = Inl (SlackError ''timeout'')" for p
    by (simp add: exampleEnv_def)
  have s1: "slackSend exampleEnv [q] p = Inr (SlackResponse ''ok'')" for p q
    by (simp add: exampleEnv_def)
  have b: "logOut w' = [ErrorLine (SlackError ''timeout''), InfoLine (SlackResponse ''ok'')]"
    using lg ne unfolding m two sc' by (simp add: exampleWorld_def s0 s1)
  have main: "HandleRequest exampleEnv (init exampleEnv) ?ev exampleWorld =
        Some (Inr (None, w')) \<and>
        map (length \<circ> Attachments) (sendCalls w') = [100, 1] \<and>
        logOut w' = [ErrorLine (SlackError ''timeout''), InfoLine (SlackResponse ''ok'')]"
    using run a b by simp
  show ?thesis by (rule exI [of _ w']) (rule main)
qed

text \<open>
  C8: at every iteration of the chunking loop (the index \<open>i\<close> is one the loop reaches,
  and the loop condition \<open>i < len\<close> holds) the bounds satisfy
  \<open>0 \<le> i < end \<le> len\<close>, so the slice expression yields the sub-slice and does not
  panic; the sum \<open>i + slackAttachmentsChunkSize\<close> stays below \<open>len + 100\<close>; and the
  whole loop ends without a panic.
\<close>

theorem slice_bounds_valid:
  "(\<forall>i. loopIndex (init e) atts i \<and> i < int (length atts) \<longrightarrow>
      0 \<le> i \<and> i < chunkEnd (init e) atts i \<and> chunkEnd (init e) atts i \<le> int (length atts) \<and>
      goSlice atts i (chunkEnd (init e) atts i) =
        Inr (take (nat (chunkEnd (init e) atts i - i)) (drop (nat i) atts)) \<and>
      i + slackAttachmentsChunkSize (init e) < int (length atts) + 100) \<and>
   (\<exists>w'. chunkLoop e (init e) atts 0 w = Some (Inr w'))"
proof (intro conjI allI impI)
  fix i
  assume h: "loopIndex (init e) atts i \<and> i < int (length atts)"
  then have nonneg: "0 \<le> i" using loop_index_bounds by blast
  from chunkEnd_bounds [OF nonneg, of atts e] h
  have b: "i < chunkEnd (init e) atts i" "chunkEnd (init e) atts i \<le> int (length atts)"
    by simp_all
  show "0 \<le> i" by (rule nonneg)
  show "i < chunkEnd (init e) atts i" by (rule b)
  show "chunkEnd (init e) atts i \<le> int (length atts)" by (rule b)
  show "goSlice atts i (chunkEnd (init e) atts i) =
        Inr (take (nat (chunkEnd (init e) atts i - i)) (drop (nat i) atts))"
    using nonneg b by (simp add: goSlice_def)
  show "i + slackAttachmentsChunkSize (init e) < int (length atts) + 100"
    using h by (simp add: init_def)
next
  show "\<exists>w'. chunkLoop e (init e) atts 0 w = Some (Inr w')"
    by (simp add: chunkLoop_init)
qed

theorem slice_bounds_valid_witness:
  "loopIndex (init exampleEnv) (replicate 101 (newAttachment exampleEnv alarmRecord 0)) 100 \<and>
   (100::int) < int (length (replicate 101 (newAttachment exampleEnv alarmRecord 0))) \<and>
   100 < chunkEnd (init exampleEnv) (replicate 101 (newAttachment exampleEnv alarmRecord 0)) 100 \<and>
   chunkEnd (init exampleEnv) (replicate 101 (newAttachment exampleEnv alarmRecord 0)) 100 \<le>
     int (length (replicate 101 (newAttachment exampleEnv alarmRecord 0)))"
proof -
  let ?atts = "replicate 101 (newAttachment exampleEnv alarmRecord 0)"
  let ?g = "init exampleEnv"
  have s: "goSlice ?atts (int 0) (chunkEnd ?g ?atts (int 0)) = Inr (take 100 (drop 0 ?atts))"
    by (rule goSlice_chunk [OF _ init_chunkSize]) simp_all
  have "loopIndex ?g ?atts (0 + slackAttachmentsChunkSize ?g)"
    using s by (intro loopNext [OF loopStart]) simp_all
  then have li: "loopIndex ?g ?atts 100" by (simp add: init_def)
  have lt: "(100::int) < int (length ?atts)" by simp
  from slice_bounds_valid [of exampleEnv ?atts exampleWorld] li lt
  show ?thesis by blast
qed

text \<open>
  C9: the chunking loop returns for every list of fragments. \<open>init\<close> sets the chunk
  size to 100; for every positive chunk size the loop started at any index returns (the
  distance of the index from the length goes down at every iteration), and with the
  chunk size 100, started at index 0, it returns without a panic.
\<close>

theorem chunk_loop_terminates:
  "slackAttachmentsChunkSize (init e) = 100 \<and>
   (0 < slackAttachmentsChunkSize g \<longrightarrow> (\<exists>r. chunkLoop e g atts i w = Some r)) \<and>
   (\<exists>w'. chunkLoop e (init e) atts 0 w = Some (Inr w'))"
  using init_chunkSize [of e] by (simp add: chunkLoop_returns chunkLoop_init)

theorem chunk_loop_terminates_witness:
  "0 < slackAttachmentsChunkSize (init exampleEnv) \<and>
   (\<exists>r. chunkLoop exampleEnv (init exampleEnv)
          (replicate 101 (newAttachment exampleEnv alarmRecord 0)) 0 exampleWorld = Some r)"
  using chunk_loop_terminates [of exampleEnv "init exampleEnv"
          "replicate 101 (newAttachment exampleEnv alarmRecord 0)" 0 exampleWorld]
  by simp

text \<open>
  C10: a record of the batch whose body the decoder could not decode at all, so that the
  struct is still the zero value, gives a fragment with the good colour, neither danger
  nor warning.
\<close>

theorem undecodable_record_is_good:
  assumes "i < length rs"
    and "snd (jsonDecode e (Message (SNS (rs ! i))) zeroCloudWatchAlarmEvent) =
           zeroCloudWatchAlarmEvent"
  shows "Color (fst (recordsLoop e rs [] w) ! i) = ''good'' \<and>
         Color (fst (recordsLoop e rs [] w) ! i) \<noteq> ''danger'' \<and>
         Color (fst (recordsLoop e rs [] w) ! i) \<noteq> ''warning''"
  using assms
  by (simp add: recordsLoop_eq newAttachment_def Let_def severityColor_def
        zeroCloudWatchAlarmEvent_def)

theorem undecodable_record_is_good_witness:
  "(0::nat) < length [brokenRecord, alarmRecord] \<and>
   snd (jsonDecode exampleEnv (Message (SNS ([brokenRecord, alarmRecord] ! 0)))
          zeroCloudWatchAlarmEvent) = zeroCloudWatchAlarmEvent \<and>
   Color (fst (recordsLoop exampleEnv [brokenRecord, alarmRecord] [] exampleWorld) ! 0) = ''good''"
proof -
  have d: "snd (jsonDecode exampleEnv (Message (SNS ([brokenRecord, alarmRecord] ! 0)))
          zeroCloudWatchAlarmEvent) = zeroCloudWatchAlarmEvent"
    by (simp add: exampleEnv_def brokenRecord_def alarmBody_def)
  have l: "(0::nat) < length [brokenRecord, alarmRecord]" by simp
  from undecodable_record_is_good [OF l d, of exampleWorld] d l
  show ?thesis by blast
qed

end
